theory Spec2Isabelle
  imports Main
begin

section \<open>Updates, effects and the external services\<close>

text \<open>
  The bot of \<^verbatim>\<open>src/main.py\<close> is a set of handler coroutines registered with the
  \<^verbatim>\<open>python-telegram-bot\<close> framework. Each handler reads an \<^verbatim>\<open>Update\<close>, calls the
  bot API and the completion service, and returns the next conversation state.

  Three kinds of update can reach a handler of this bot: a new message, an edited message,
  and a press of an inline button (\<^verbatim>\<open>run_polling\<close> asks for all update types; channel posts
  and the other kinds are accepted by none of the registered handlers). Of a message the
  handlers read the sender, the chat, the text, the leading \<^verbatim>\<open>bot_command\<close> entity (what
  \<^verbatim>\<open>CommandHandler\<close> and \<^verbatim>\<open>filters.COMMAND\<close> look at; the field holds the command name
  without its slash) and \<^verbatim>\<open>reply_to_message.from_user\<close>. Of a button press they read
  the sender, the chat of the message that carries the button, and the callback data.
\<close>

record user =
  user_id :: int
  first_name :: string

record chat =
  chat_id :: int
  chat_type :: string

record message =
  from_user :: user
  msg_chat :: chat
  msg_text :: "string option"
  msg_command :: "string option"
  reply_to_message :: "user option"

record callback_query =
  cq_from_user :: user
  cq_chat :: chat
  data :: string

datatype update =
    Message message
  | EditedMessage message
  | CallbackQuery callback_query

text \<open>
  The attribute \<^verbatim>\<open>update.message\<close> is set on a new message only: on an edited message
  it is \<^verbatim>\<open>None\<close> and \<^verbatim>\<open>update.edited_message\<close> is set instead; on a button press both are
  \<^verbatim>\<open>None\<close> and \<^verbatim>\<open>update.callback_query\<close> is set. \<^verbatim>\<open>effective_chat\<close> and
  \<^verbatim>\<open>effective_user\<close> are defined on all three.
\<close>

fun update_message :: "update \<Rightarrow> message option" where
  "update_message (Message m) = Some m"
| "update_message (EditedMessage m) = None"
| "update_message (CallbackQuery q) = None"

fun update_edited_message :: "update \<Rightarrow> message option" where
  "update_edited_message (Message m) = None"
| "update_edited_message (EditedMessage m) = Some m"
| "update_edited_message (CallbackQuery q) = None"

fun update_callback_query :: "update \<Rightarrow> callback_query option" where
  "update_callback_query (Message m) = None"
| "update_callback_query (EditedMessage m) = None"
| "update_callback_query (CallbackQuery q) = Some q"

fun effective_chat :: "update \<Rightarrow> chat" where
  "effective_chat (Message m) = msg_chat m"
| "effective_chat (EditedMessage m) = msg_chat m"
| "effective_chat (CallbackQuery q) = cq_chat q"

fun effective_user :: "update \<Rightarrow> user" where
  "effective_user (Message m) = from_user m"
| "effective_user (EditedMessage m) = from_user m"
| "effective_user (CallbackQuery q) = cq_from_user q"

text \<open>
  An inline keyboard is a list of rows of buttons, a button being its label and its
  callback data.
\<close>

type_synonym keyboard = "(string \<times> string) list list"

text \<open>
  What a handler does to the outside is recorded as a list of effects, in the order of the
  calls: the replies, edits and acknowledgements that the messaging transport accepted,
  the moderation calls (recorded when they are invoked, whether or not the platform then
  accepts them) and the lines written by \<^verbatim>\<open>logger.error\<close>.
\<close>

datatype exn = AttributeError | ServiceError string

datatype effect =
    ReplyText string "keyboard option"
  | EditMessageText string "keyboard option"
  | Answer
  | BanChatMember int int
  | RestrictChatMember int int bool
  | LoggerError string exn

text \<open>
  The answers of the external services are not under the program's control: the membership
  status the platform reports (or the error of the lookup), the fate of a moderation call,
  the text the completion service generates (or its error), and whether the transport
  accepts an outgoing reply, edit or acknowledgement (\<open>transport\<close>, asked with the call as
  it would be recorded). They are a parameter of every handler.
\<close>

record env =
  get_chat_member :: "int \<Rightarrow> int \<Rightarrow> exn + string"
  ban_chat_member :: "int \<Rightarrow> int \<Rightarrow> exn + unit"
  restrict_chat_member :: "int \<Rightarrow> int \<Rightarrow> bool \<Rightarrow> exn + unit"
  send_message_async :: "string \<Rightarrow> exn + string"
  transport :: "effect \<Rightarrow> exn + unit"

subsection \<open>Computations with effects and exceptions\<close>

text \<open>
  A handler body yields the effects it performed and either the exception that left it or
  its return value. \<open>io_try\<close> is \<^verbatim>\<open>try: ... except Exception as e: ...\<close>: the effects
  performed before the exception are kept.
\<close>

type_synonym 'a io = "effect list \<times> (exn + 'a)"

definition io_return :: "'a \<Rightarrow> 'a io" where
  "io_return x = ([], Inr x)"

definition io_raise :: "exn \<Rightarrow> 'a io" where
  "io_raise e = ([], Inl e)"

definition io_emit :: "effect \<Rightarrow> unit io" where
  "io_emit f = ([f], Inr ())"

definition io_await :: "exn + 'a \<Rightarrow> 'a io" where
  "io_await r = ([], r)"

definition io_bind :: "'a io \<Rightarrow> ('a \<Rightarrow> 'b io) \<Rightarrow> 'b io" where
  "io_bind m f =
     (case m of
        (fx, Inl e) \<Rightarrow> (fx, Inl e)
      | (fx, Inr x) \<Rightarrow> (case f x of (fx', r) \<Rightarrow> (fx @ fx', r)))"

definition io_try :: "'a io \<Rightarrow> (exn \<Rightarrow> 'a io) \<Rightarrow> 'a io" where
  "io_try m h =
     (case m of
        (fx, Inl e) \<Rightarrow> (case h e of (fx', r) \<Rightarrow> (fx @ fx', r))
      | (fx, Inr x) \<Rightarrow> (fx, Inr x))"

text \<open>
  An outgoing call goes through the transport: when it is accepted it is recorded, when
  it is refused the transport's exception is raised at the call and nothing is recorded.
\<close>

definition io_send :: "env \<Rightarrow> effect \<Rightarrow> unit io" where
  "io_send ev f = (case transport ev f of Inl e \<Rightarrow> ([], Inl e) | Inr ok \<Rightarrow> ([f], Inr ()))"

text \<open>
  \<^verbatim>\<open>update.message.reply_text(...)\<close> raises \<^verbatim>\<open>AttributeError\<close> when \<^verbatim>\<open>update.message\<close> is
  \<^verbatim>\<open>None\<close>, before anything is sent; likewise the methods of \<^verbatim>\<open>update.callback_query\<close>.
\<close>

fun reply_text :: "env \<Rightarrow> message option \<Rightarrow> string \<Rightarrow> keyboard option \<Rightarrow> unit io" where
  "reply_text ev None t k = io_raise AttributeError"
| "reply_text ev (Some m) t k = io_send ev (ReplyText t k)"

fun query_answer :: "env \<Rightarrow> callback_query option \<Rightarrow> unit io" where
  "query_answer ev None = io_raise AttributeError"
| "query_answer ev (Some q) = io_send ev Answer"

fun query_message_reply_text ::
  "env \<Rightarrow> callback_query option \<Rightarrow> string \<Rightarrow> keyboard option \<Rightarrow> unit io" where
  "query_message_reply_text ev None t k = io_raise AttributeError"
| "query_message_reply_text ev (Some q) t k = io_send ev (ReplyText t k)"

fun query_edit_message_text ::
  "env \<Rightarrow> callback_query option \<Rightarrow> string \<Rightarrow> keyboard option \<Rightarrow> unit io" where
  "query_edit_message_text ev None t k = io_raise AttributeError"
| "query_edit_message_text ev (Some q) t k = io_send ev (EditMessageText t k)"

text \<open>
  \<^verbatim>\<open>context.bot.kick_chat_member\<close>: the names \<^verbatim>\<open>main.py\<close> imports from \<^verbatim>\<open>telegram.ext\<close>
  (\<^verbatim>\<open>Application\<close>, \<^verbatim>\<open>filters\<close>, \<^verbatim>\<open>ContextTypes\<close>) exist from version 20 of the library on,
  and the \<^verbatim>\<open>Bot\<close> class of those versions has no method of that name (it was renamed to
  \<^verbatim>\<open>ban_chat_member\<close>, the one \<^verbatim>\<open>ban_user\<close> calls). The attribute lookup therefore raises
  \<^verbatim>\<open>AttributeError\<close> and no call reaches the platform.
\<close>

definition bot_kick_chat_member :: "env \<Rightarrow> int \<Rightarrow> int \<Rightarrow> unit io" where
  "bot_kick_chat_member ev c t = io_raise AttributeError"

definition bot_ban_chat_member :: "env \<Rightarrow> int \<Rightarrow> int \<Rightarrow> unit io" where
  "bot_ban_chat_member ev c t =
     io_bind (io_emit (BanChatMember c t)) (\<lambda>_. io_await (ban_chat_member ev c t))"

definition bot_restrict_chat_member :: "env \<Rightarrow> int \<Rightarrow> int \<Rightarrow> bool \<Rightarrow> unit io" where
  "bot_restrict_chat_member ev c t can_send_messages =
     io_bind (io_emit (RestrictChatMember c t can_send_messages))
       (\<lambda>_. io_await (restrict_chat_member ev c t can_send_messages))"

section \<open>The texts and keyboards of the bot\<close>

text \<open>
  String literals are the UTF-8 bytes of the literals in the source file; bytes outside
  printable ASCII are written as character codes.
\<close>

definition start_welcome_message :: "user \<Rightarrow> string" where
  "start_welcome_message u =
     ''Hello, '' @ first_name u @
     ''-senpai! I am Sakura Haruna, your friendly group management bot, desu! It's so nice to meet you, ne~ '' @
     [CHR 0xC3, CHR 0xA2, CHR 0xC5, CHR 0x93, CHR 0xC2, CHR 0xA8, CHR 0x0A, CHR 0x0A] @
     ''What would you like to do? Kawaii~!''"

definition main_keyboard :: keyboard where
  "main_keyboard =
     [[([CHR 0xC3, CHR 0xB0, CHR 0xC5, CHR 0xB8, CHR 0xC5, CHR 0x92, CHR 0xC2, CHR 0xB8] @
          '' Chat with Sakura'', ''chat_start'')],
      [([CHR 0xC3, CHR 0xB0, CHR 0xC5, CHR 0xB8, CHR 0xE2, CHR 0x80, CHR 0xBA, CHR 0xC2, CHR 0xA0,
          CHR 0xC3, CHR 0xAF, CHR 0xC2, CHR 0xB8] @ '' Group Management'', ''manage_group'')],
      [([CHR 0xC3, CHR 0xA2, CHR 0xE2, CHR 0x80, CHR 0x9C] @ '' Help'', ''help_menu'')]]"

definition back_button :: "string \<times> string" where
  "back_button = ([CHR 0xC3, CHR 0xA2, CHR 0xC2, CHR 0xAA] @ '' Back to Main Menu'', ''main_menu'')"

definition manage_keyboard :: keyboard where
  "manage_keyboard =
     [[(''Kick User'', ''kick_user''), (''Ban User'', ''ban_user'')],
      [(''Mute User'', ''mute_user''), (''Unmute User'', ''unmute_user'')],
      [back_button]]"

definition help_keyboard :: keyboard where
  "help_keyboard = [[back_button]]"

definition admin_command_denial :: string where
  "admin_command_denial = ''You must be an admin to use this command, desu!''"

definition admin_menu_denial :: string where
  "admin_menu_denial = ''You must be an admin to access this, baka!''"

definition management_message :: string where
  "management_message =
     ''Okay, senpai! How can I help you manage the group? Choose a command, desu!''"

definition help_message :: string where
  "help_message =
     ''Here's a list of things I can do, desu! '' @
     [CHR 0xC3, CHR 0xB0, CHR 0xC5, CHR 0xB8, CHR 0xE2, CHR 0x80, CHR 0x99, CHR 0xE2, CHR 0x80,
      CHR 0x93, CHR 0x0A, CHR 0x0A] @
     ''- **Chat with me:** Just send me a message and I'll reply with my kawaii anime personality!'' @
     [CHR 0x0A] @
     ''- **Group Management:** Admins can use the buttons to kick, ban, or mute users.'' @
     [CHR 0x0A] @ ''- **Commands:**'' @ [CHR 0x0A] @
     '' '' @ [CHR 0xC3, CHR 0x82, CHR 0xC2, CHR 0xA0] @ ''- `/start`: Shows the main menu.'' @
     [CHR 0x0A] @
     '' '' @ [CHR 0xC3, CHR 0x82, CHR 0xC2, CHR 0xA0] @ ''- `/help`: Shows this help message.'' @
     [CHR 0x0A] @
     '' '' @ [CHR 0xC3, CHR 0x82, CHR 0xC2, CHR 0xA0] @
     ''- `/kick @username`: Kicks a user from the group (admin only).'' @ [CHR 0x0A] @
     '' '' @ [CHR 0xC3, CHR 0x82, CHR 0xC2, CHR 0xA0] @
     ''- `/ban @username`: Bans a user from the group (admin only).'' @ [CHR 0x0A] @
     '' '' @ [CHR 0xC3, CHR 0x82, CHR 0xC2, CHR 0xA0] @
     ''- `/mute @username`: Mutes a user (admin only).'' @ [CHR 0x0A, CHR 0x0A] @
     ''If you have any questions, feel free to ask me, ne~!''"

definition main_menu_welcome_message :: "user \<Rightarrow> string" where
  "main_menu_welcome_message u =
     ''Welcome back, '' @ first_name u @
     ''-senpai! I am Sakura Haruna, desu! What would you like to do now? '' @
     [CHR 0xC3, CHR 0xA2, CHR 0xC5, CHR 0x93, CHR 0xC2, CHR 0xA8]"

definition chat_entry_message :: string where
  "chat_entry_message =
     ''Yay! Let's chat, senpai! You can talk to me now, desu! Just send me a message! Kawaii~''"

definition chat_fallback_message :: string where
  "chat_fallback_message =
     ''I'm sorry, senpai! I seem to be having a little trouble right now, ne. Please try again later!''"

definition kick_success :: "user \<Rightarrow> string" where
  "kick_success t =
     ''Sayonara, '' @ first_name t @ ''-kun! Hehe~ '' @
     [CHR 0xC3, CHR 0xB0, CHR 0xC5, CHR 0xB8, CHR 0xCB, CHR 0x9C, CHR 0xC5, CHR 0x93]"

definition kick_failure :: string where
  "kick_failure =
     ''I couldn't kick them, senpai! Maybe they're too powerful for me, baka! '' @
     [CHR 0xC3, CHR 0xB0, CHR 0xC5, CHR 0xB8, CHR 0xCB, CHR 0x9C, CHR 0xC2, CHR 0xAD]"

definition kick_usage :: string where
  "kick_usage = ''Please reply to a user's message with /kick to kick them, desu!''"

definition ban_success :: "user \<Rightarrow> string" where
  "ban_success t =
     ''The ban hammer has been dropped on '' @ first_name t @ ''-kun! '' @
     [CHR 0xC3, CHR 0xB0, CHR 0xC5, CHR 0xB8, CHR 0xE2, CHR 0x80, CHR 0x9D, CHR 0xC2, CHR 0xA8]"

definition ban_failure :: string where
  "ban_failure =
     ''I couldn't ban them, senpai! It seems my powers have been challenged! '' @
     [CHR 0xC3, CHR 0xB0, CHR 0xC5, CHR 0xB8, CHR 0xCB, CHR 0x9C, CHR 0xC5, CHR 0xB8]"

definition ban_usage :: string where
  "ban_usage = ''Please reply to a user's message with /ban to ban them, desu!''"

definition mute_success :: "user \<Rightarrow> string" where
  "mute_success t =
     ''Shhh! '' @ first_name t @ ''-kun has been silenced! Muted, desu! '' @
     [CHR 0xC3, CHR 0xB0, CHR 0xC5, CHR 0xB8, CHR 0xC2, CHR 0xA4, CHR 0xC2, CHR 0xAB]"

definition mute_failure :: string where
  "mute_failure =
     ''I couldn't mute them, senpai! It's not working, baka! '' @
     [CHR 0xC3, CHR 0xB0, CHR 0xC5, CHR 0xB8, CHR 0xCB, CHR 0x9C, CHR 0xC2, CHR 0xAB]"

definition mute_usage :: string where
  "mute_usage = ''Please reply to a user's message with /mute to mute them, desu!''"

section \<open>The handlers\<close>

text \<open>
  \<^verbatim>\<open>ConversationHandler.END\<close> and \<^verbatim>\<open>CHAT_WITH_SAKURA\<close> are the two values the handlers of
  the conversation return.
\<close>

datatype conv_ret = END | CHAT_WITH_SAKURA

text \<open>
  \<^verbatim>\<open>is_admin\<close>: outside a group or supergroup the answer is \<^verbatim>\<open>False\<close> without any call.
  Inside one, the membership lookup and the denial reply are both under the
  \<^verbatim>\<open>try\<close>, so an exception of either is logged and turned into \<^verbatim>\<open>False\<close>.
\<close>

definition is_admin :: "env \<Rightarrow> update \<Rightarrow> bool io" where
  "is_admin ev u =
     (if chat_type (effective_chat u) \<in> set [''group'', ''supergroup'']
      then
        io_try
          (io_bind
             (io_await (get_chat_member ev (chat_id (effective_chat u)) (user_id (effective_user u))))
             (\<lambda>status.
                if status \<in> set [''creator'', ''administrator'']
                then io_return True
                else io_bind (reply_text ev (update_message u) admin_command_denial None)
                       (\<lambda>_. io_return False)))
          (\<lambda>e. io_bind (io_emit (LoggerError ''Error checking admin status: '' e))
                  (\<lambda>_. io_return False))
      else io_return False)"

definition start :: "env \<Rightarrow> update \<Rightarrow> conv_ret io" where
  "start ev u =
     io_bind
       (reply_text ev (update_message u) (start_welcome_message (effective_user u))
          (Some main_keyboard))
       (\<lambda>_. io_return END)"

definition show_manage_menu :: "env \<Rightarrow> update \<Rightarrow> conv_ret io" where
  "show_manage_menu ev u =
     io_bind (query_answer ev (update_callback_query u)) (\<lambda>_.
     io_bind (is_admin ev u) (\<lambda>admin.
       if \<not> admin
       then io_bind
              (query_message_reply_text ev (update_callback_query u) admin_menu_denial None)
              (\<lambda>_. io_return END)
       else io_bind
              (query_edit_message_text ev (update_callback_query u) management_message
                 (Some manage_keyboard))
              (\<lambda>_. io_return END)))"

definition help_menu :: "env \<Rightarrow> update \<Rightarrow> conv_ret io" where
  "help_menu ev u =
     io_bind (query_answer ev (update_callback_query u)) (\<lambda>_.
     io_bind
       (query_edit_message_text ev (update_callback_query u) help_message (Some help_keyboard))
       (\<lambda>_. io_return END))"

definition main_menu :: "env \<Rightarrow> update \<Rightarrow> conv_ret io" where
  "main_menu ev u =
     io_bind (query_answer ev (update_callback_query u)) (\<lambda>_.
     io_bind
       (query_edit_message_text ev (update_callback_query u)
          (main_menu_welcome_message (effective_user u)) (Some main_keyboard))
       (\<lambda>_. io_return END))"

definition start_chat_mode :: "env \<Rightarrow> update \<Rightarrow> conv_ret io" where
  "start_chat_mode ev u =
     io_bind (query_answer ev (update_callback_query u)) (\<lambda>_.
     io_bind (query_edit_message_text ev (update_callback_query u) chat_entry_message None)
       (\<lambda>_. io_return CHAT_WITH_SAKURA))"

text \<open>
  \<^verbatim>\<open>handle_chat\<close>: reading \<^verbatim>\<open>update.message.text\<close> is outside the \<^verbatim>\<open>try\<close>; the completion
  call and the reply with its text are inside; the \<^verbatim>\<open>except\<close> branch logs and replies with
  the fixed text, and that reply is not guarded.
\<close>

definition handle_chat :: "env \<Rightarrow> update \<Rightarrow> conv_ret io" where
  "handle_chat ev u =
     (case update_message u of
        None \<Rightarrow> io_raise AttributeError
      | Some m \<Rightarrow>
          (case msg_text m of
             None \<Rightarrow> io_return CHAT_WITH_SAKURA
           | Some user_message \<Rightarrow>
               if user_message = [] then io_return CHAT_WITH_SAKURA
               else
                 io_bind
                   (io_try
                      (io_bind (io_await (send_message_async ev user_message))
                         (\<lambda>response. reply_text ev (update_message u) response None))
                      (\<lambda>e. io_bind (io_emit (LoggerError ''Gemini API error: '' e))
                              (\<lambda>_. reply_text ev (update_message u) chat_fallback_message None)))
                   (\<lambda>_. io_return CHAT_WITH_SAKURA)))"

text \<open>
  The three moderation commands share one shape: the authorization check, then the reply
  target, read from \<^verbatim>\<open>update.message\<close> outside the \<^verbatim>\<open>try\<close>; the platform call and the success
  reply are under one \<^verbatim>\<open>try\<close>, whose \<^verbatim>\<open>except\<close> branch sends the failure reply unguarded.
\<close>

definition kick_user :: "env \<Rightarrow> update \<Rightarrow> unit io" where
  "kick_user ev u =
     io_bind (is_admin ev u) (\<lambda>admin.
       if \<not> admin then io_return ()
       else
         (case update_message u of
            None \<Rightarrow> io_raise AttributeError
          | Some m \<Rightarrow>
              (case reply_to_message m of
                 Some user_to_kick \<Rightarrow>
                   io_try
                     (io_bind
                        (bot_kick_chat_member ev (chat_id (effective_chat u))
                           (user_id user_to_kick))
                        (\<lambda>_. reply_text ev (update_message u) (kick_success user_to_kick) None))
                     (\<lambda>e. reply_text ev (update_message u) kick_failure None)
               | None \<Rightarrow> reply_text ev (update_message u) kick_usage None)))"

definition ban_user :: "env \<Rightarrow> update \<Rightarrow> unit io" where
  "ban_user ev u =
     io_bind (is_admin ev u) (\<lambda>admin.
       if \<not> admin then io_return ()
       else
         (case update_message u of
            None \<Rightarrow> io_raise AttributeError
          | Some m \<Rightarrow>
              (case reply_to_message m of
                 Some user_to_ban \<Rightarrow>
                   io_try
                     (io_bind
                        (bot_ban_chat_member ev (chat_id (effective_chat u))
                           (user_id user_to_ban))
                        (\<lambda>_. reply_text ev (update_message u) (ban_success user_to_ban) None))
                     (\<lambda>e. reply_text ev (update_message u) ban_failure None)
               | None \<Rightarrow> reply_text ev (update_message u) ban_usage None)))"

definition mute_user :: "env \<Rightarrow> update \<Rightarrow> unit io" where
  "mute_user ev u =
     io_bind (is_admin ev u) (\<lambda>admin.
       if \<not> admin then io_return ()
       else
         (case update_message u of
            None \<Rightarrow> io_raise AttributeError
          | Some m \<Rightarrow>
              (case reply_to_message m of
                 Some user_to_mute \<Rightarrow>
                   io_try
                     (io_bind
                        (bot_restrict_chat_member ev (chat_id (effective_chat u))
                           (user_id user_to_mute) False)
                        (\<lambda>_. reply_text ev (update_message u) (mute_success user_to_mute) None))
                     (\<lambda>e. reply_text ev (update_message u) mute_failure None)
               | None \<Rightarrow> reply_text ev (update_message u) mute_usage None)))"

section \<open>Registration and dispatch\<close>

text \<open>
  \<^verbatim>\<open>main\<close> registers the handlers with the framework, which decides for every update
  which callback runs. A registered handler is a test on the update and the callback:
  \<^item> \<^verbatim>\<open>CommandHandler(name, cb)\<close> is built without a \<^verbatim>\<open>filters\<close> argument, so it has the
    library's default, \<^verbatim>\<open>filters.UpdateType.MESSAGES\<close>: it accepts a new message and an
    edited message alike, when the leading command of the message is \<open>name\<close>;
  \<^item> \<^verbatim>\<open>CallbackQueryHandler(cb, pattern="^tag$")\<close> accepts a button press whose callback
    data is \<open>tag\<close> (the tags of the bot's keyboards contain no line break, so the anchored
    pattern is equality);
  \<^item> \<^verbatim>\<open>MessageHandler(filters.TEXT & ~filters.COMMAND, cb)\<close> accepts an update that carries
    a message, new or edited (message filters are applied to the effective message),
    with a non-empty text and no leading command.
\<close>

type_synonym 'r handler = "(update \<Rightarrow> bool) \<times> (env \<Rightarrow> update \<Rightarrow> 'r io)"

definition UpdateType_MESSAGES :: "update \<Rightarrow> message option" where
  "UpdateType_MESSAGES u =
     (case update_message u of Some m \<Rightarrow> Some m | None \<Rightarrow> update_edited_message u)"

definition commanded :: "string \<Rightarrow> update \<Rightarrow> bool" where
  "commanded name u =
     (case UpdateType_MESSAGES u of None \<Rightarrow> False | Some m \<Rightarrow> msg_command m = Some name)"

definition pressed :: "string \<Rightarrow> update \<Rightarrow> bool" where
  "pressed tag u =
     (case update_callback_query u of None \<Rightarrow> False | Some q \<Rightarrow> data q = tag)"

definition CommandHandler :: "string \<Rightarrow> (env \<Rightarrow> update \<Rightarrow> 'r io) \<Rightarrow> 'r handler" where
  "CommandHandler name cb = (commanded name, cb)"

definition CallbackQueryHandler :: "(env \<Rightarrow> update \<Rightarrow> 'r io) \<Rightarrow> string \<Rightarrow> 'r handler" where
  "CallbackQueryHandler cb tag = (pressed tag, cb)"

definition TEXT_and_not_COMMAND :: "update \<Rightarrow> bool" where
  "TEXT_and_not_COMMAND u =
     (case UpdateType_MESSAGES u of
        None \<Rightarrow> False
      | Some m \<Rightarrow> (msg_text m \<noteq> None \<and> msg_text m \<noteq> Some []) \<and> msg_command m = None)"

definition MessageHandler :: "(update \<Rightarrow> bool) \<Rightarrow> (env \<Rightarrow> update \<Rightarrow> 'r io) \<Rightarrow> 'r handler" where
  "MessageHandler flt cb = (flt, cb)"

definition first_match :: "'r handler list \<Rightarrow> update \<Rightarrow> 'r handler option" where
  "first_match hs u = find (\<lambda>h. fst h u) hs"

text \<open>
  The session of a chat and user is \<open>IDLE\<close> while the \<^verbatim>\<open>ConversationHandler\<close> holds no
  state for it, and \<open>CHATTING\<close> while it holds \<^verbatim>\<open>CHAT_WITH_SAKURA\<close>. A callback that returns
  \<^verbatim>\<open>END\<close> removes the stored state, one that returns \<^verbatim>\<open>CHAT_WITH_SAKURA\<close> stores it.
\<close>

datatype session = IDLE | CHATTING

fun update_state :: "conv_ret \<Rightarrow> session" where
  "update_state END = IDLE"
| "update_state CHAT_WITH_SAKURA = CHATTING"

record conversation =
  entry_points :: "conv_ret handler list"
  states :: "(conv_ret \<times> conv_ret handler list) list"
  fallbacks :: "conv_ret handler list"

text \<open>
  The selection rule of \<^verbatim>\<open>ConversationHandler\<close>, as the library documents it: the entry
  points are what can start a conversation, so they are consulted while no state is held
  (\<^verbatim>\<open>allow_reentry\<close>, which would consult them in every state, is off unless it is passed,
  and \<^verbatim>\<open>main\<close> does not pass it); while a state is held, the handlers listed for that state
  are consulted, and the fallbacks when none of those accepts the update. An update that
  no consulted handler accepts is not handled by the conversation.
\<close>

definition conversation_check_update ::
  "conversation \<Rightarrow> session \<Rightarrow> update \<Rightarrow> conv_ret handler option" where
  "conversation_check_update c s u =
     (case s of
        IDLE \<Rightarrow> first_match (entry_points c) u
      | CHATTING \<Rightarrow>
          (case first_match
                  (case map_of (states c) CHAT_WITH_SAKURA of None \<Rightarrow> [] | Some hs \<Rightarrow> hs) u of
             Some h \<Rightarrow> Some h
           | None \<Rightarrow> first_match (fallbacks c) u))"

definition conversation_handler :: conversation where
  "conversation_handler =
     \<lparr> entry_points = [CommandHandler ''start'' start],
       states = [(CHAT_WITH_SAKURA, [MessageHandler TEXT_and_not_COMMAND handle_chat])],
       fallbacks =
         [CallbackQueryHandler start_chat_mode ''chat_start'',
          CallbackQueryHandler show_manage_menu ''manage_group'',
          CallbackQueryHandler help_menu ''help_menu'',
          CallbackQueryHandler main_menu ''main_menu''] \<rparr>"

definition command_handlers :: "unit handler list" where
  "command_handlers =
     [CommandHandler ''kick'' kick_user,
      CommandHandler ''ban'' ban_user,
      CommandHandler ''mute'' mute_user]"

text \<open>
  All four registrations of \<^verbatim>\<open>main\<close> are in one group of the application, so an update
  goes to the first of them that accepts it: the conversation, then \<^verbatim>\<open>/kick\<close>, \<^verbatim>\<open>/ban\<close>,
  \<^verbatim>\<open>/mute\<close>. An update nobody accepts is dropped. The result of routing is the session
  afterwards, the effects, and the exception that left the callback, if any: the
  application receives it, and the stored state stays as it was.
\<close>

record routed =
  new_session :: session
  effects :: "effect list"
  surfaced :: "exn option"

definition route :: "env \<Rightarrow> session \<Rightarrow> update \<Rightarrow> routed" where
  "route ev s u =
     (case conversation_check_update conversation_handler s u of
        Some h \<Rightarrow>
          (case snd h ev u of
             (fx, Inr r) \<Rightarrow> \<lparr> new_session = update_state r, effects = fx, surfaced = None \<rparr>
           | (fx, Inl e) \<Rightarrow> \<lparr> new_session = s, effects = fx, surfaced = Some e \<rparr>)
      | None \<Rightarrow>
          (case first_match command_handlers u of
             Some h \<Rightarrow>
               (case snd h ev u of
                  (fx, Inr r) \<Rightarrow> \<lparr> new_session = s, effects = fx, surfaced = None \<rparr>
                | (fx, Inl e) \<Rightarrow> \<lparr> new_session = s, effects = fx, surfaced = Some e \<rparr>)
           | None \<Rightarrow> \<lparr> new_session = s, effects = [], surfaced = None \<rparr>))"

text \<open>
  A run of the bot for one chat and user starts with no stored state and routes the
  updates as they arrive.
\<close>

definition run :: "env \<Rightarrow> update list \<Rightarrow> session" where
  "run ev us = foldl (\<lambda>s u. new_session (route ev s u)) IDLE us"

text \<open>The replies and the moderation calls among the effects.\<close>

fun is_reply :: "effect \<Rightarrow> bool" where
  "is_reply (ReplyText t k) = True"
| "is_reply _ = False"

fun is_moderation :: "effect \<Rightarrow> bool" where
  "is_moderation (BanChatMember c t) = True"
| "is_moderation (RestrictChatMember c t p) = True"
| "is_moderation _ = False"

definition replies :: "effect list \<Rightarrow> effect list" where
  "replies fx = filter is_reply fx"

definition moderation_actions :: "effect list \<Rightarrow> effect list" where
  "moderation_actions fx = filter is_moderation fx"

fun button_tags :: "keyboard option \<Rightarrow> string list" where
  "button_tags None = []"
| "button_tags (Some kb) = map snd (concat kb)"

subsection \<open>Sample users, chats, services and updates\<close>

definition alice :: user where
  "alice = \<lparr> user_id = 11, first_name = ''Alice'' \<rparr>"

definition bob :: user where
  "bob = \<lparr> user_id = 22, first_name = ''Bob'' \<rparr>"

definition group_chat :: chat where
  "group_chat = \<lparr> chat_id = - 1001, chat_type = ''supergroup'' \<rparr>"

definition private_chat :: chat where
  "private_chat = \<lparr> chat_id = 11, chat_type = ''private'' \<rparr>"

text \<open>
  Three sets of answers of the services: in \<open>admin_env\<close> the sender is an administrator
  and every service answers; in \<open>member_env\<close> the sender is a plain member and the
  completion service fails; in \<open>offline_env\<close> the completion service fails and the
  transport refuses every outgoing call.
\<close>

definition admin_env :: env where
  "admin_env =
     \<lparr> get_chat_member = (\<lambda>c u. Inr ''administrator''),
       ban_chat_member = (\<lambda>c u. Inr ()),
       restrict_chat_member = (\<lambda>c u p. Inr ()),
       send_message_async = (\<lambda>t. Inr ''Konnichiwa, senpai!''),
       transport = (\<lambda>f. Inr ()) \<rparr>"

definition member_env :: env where
  "member_env =
     \<lparr> get_chat_member = (\<lambda>c u. Inr ''member''),
       ban_chat_member = (\<lambda>c u. Inr ()),
       restrict_chat_member = (\<lambda>c u p. Inr ()),
       send_message_async = (\<lambda>t. Inl (ServiceError ''quota exceeded'')),
       transport = (\<lambda>f. Inr ()) \<rparr>"


definition command_body :: "chat \<Rightarrow> string \<Rightarrow> user option \<Rightarrow> message" where
  "command_body c name target =
     \<lparr> from_user = alice, msg_chat = c, msg_text = Some (CHR ''/'' # name),
       msg_command = Some name, reply_to_message = target \<rparr>"

definition text_body :: "chat \<Rightarrow> string \<Rightarrow> message" where
  "text_body c body =
     \<lparr> from_user = alice, msg_chat = c, msg_text = Some body,
       msg_command = None, reply_to_message = None \<rparr>"

definition command_message :: "chat \<Rightarrow> string \<Rightarrow> user option \<Rightarrow> update" where
  "command_message c name target = Message (command_body c name target)"

definition edited_command_message :: "chat \<Rightarrow> string \<Rightarrow> user option \<Rightarrow> update" where
  "edited_command_message c name target = EditedMessage (command_body c name target)"

definition text_message :: "chat \<Rightarrow> string \<Rightarrow> update" where
  "text_message c body = Message (text_body c body)"

definition edited_text_message :: "chat \<Rightarrow> string \<Rightarrow> update" where
  "edited_text_message c body = EditedMessage (text_body c body)"

definition button_press :: "chat \<Rightarrow> string \<Rightarrow> update" where
  "button_press c tag = CallbackQuery \<lparr> cq_from_user = alice, cq_chat = c, data = tag \<rparr>"

section \<open>Facts about the handlers and the dispatch\<close>

lemmas io_defs =
  io_return_def io_raise_def io_emit_def io_await_def io_bind_def io_try_def io_send_def

lemmas bot_defs =
  bot_kick_chat_member_def bot_ban_chat_member_def bot_restrict_chat_member_def

lemmas registration_defs =
  conversation_handler_def command_handlers_def conversation_check_update_def first_match_def
  CommandHandler_def CallbackQueryHandler_def MessageHandler_def TEXT_and_not_COMMAND_def
  commanded_def pressed_def UpdateType_MESSAGES_def

lemmas sample_defs =
  command_message_def edited_command_message_def text_message_def edited_text_message_def
  button_press_def command_body_def text_body_def

subsection \<open>The authorization check\<close>

lemma is_admin_outside_group:
  "chat_type (effective_chat u) \<notin> {''group'', ''supergroup''} \<Longrightarrow>
   is_admin ev u = ([], Inr False)"
  by (simp add: is_admin_def io_defs)

lemma is_admin_privileged:
  "chat_type (effective_chat u) \<in> {''group'', ''supergroup''} \<Longrightarrow>
   get_chat_member ev (chat_id (effective_chat u)) (user_id (effective_user u)) = Inr st \<Longrightarrow>
   st \<in> {''creator'', ''administrator''} \<Longrightarrow>
   is_admin ev u = ([], Inr True)"
  by (auto simp add: is_admin_def io_defs)

text \<open>
  A member who is neither creator nor administrator: on a new message the denial is sent,
  and a refusal of the transport is logged; on an edited message and on a button press
  \<^verbatim>\<open>update.message\<close> is \<^verbatim>\<open>None\<close>, the reply raises, and that is logged.
\<close>

lemma is_admin_member_message:
  "chat_type (msg_chat m) \<in> {''group'', ''supergroup''} \<Longrightarrow>
   get_chat_member ev (chat_id (msg_chat m)) (user_id (from_user m)) = Inr st \<Longrightarrow>
   st \<notin> {''creator'', ''administrator''} \<Longrightarrow>
   is_admin ev (Message m) =
     (case transport ev (ReplyText admin_command_denial None) of
        Inr ok \<Rightarrow> ([ReplyText admin_command_denial None], Inr False)
      | Inl e \<Rightarrow> ([LoggerError ''Error checking admin status: '' e], Inr False))"
  by (auto simp add: is_admin_def io_defs split: sum.split)

lemma is_admin_member_without_message:
  "update_message u = None \<Longrightarrow>
   chat_type (effective_chat u) \<in> {''group'', ''supergroup''} \<Longrightarrow>
   get_chat_member ev (chat_id (effective_chat u)) (user_id (effective_user u)) = Inr st \<Longrightarrow>
   st \<notin> {''creator'', ''administrator''} \<Longrightarrow>
   is_admin ev u = ([LoggerError ''Error checking admin status: '' AttributeError], Inr False)"
  by (auto simp add: is_admin_def io_defs)

lemma is_admin_lookup_failed:
  "chat_type (effective_chat u) \<in> {''group'', ''supergroup''} \<Longrightarrow>
   get_chat_member ev (chat_id (effective_chat u)) (user_id (effective_user u)) = Inl e \<Longrightarrow>
   is_admin ev u = ([LoggerError ''Error checking admin status: '' e], Inr False)"
  by (auto simp add: is_admin_def io_defs)

text \<open>Whatever the update and the services, the check returns; no exception leaves it.\<close>

lemma is_admin_never_raises: "\<exists>fx b. is_admin ev u = (fx, Inr b)"
  by (cases u) (auto simp add: is_admin_def io_defs split: sum.splits)

text \<open>
  The check answers \<^verbatim>\<open>False\<close>, and calls no moderation operation, unless the chat is a
  group or supergroup and the lookup reports the sender as creator or administrator.
\<close>

lemma is_admin_unprivileged:
  assumes "chat_type (effective_chat u) \<in> {''group'', ''supergroup''} \<longrightarrow>
           get_chat_member ev (chat_id (effective_chat u)) (user_id (effective_user u))
             \<notin> {Inr ''creator'', Inr ''administrator''}"
  shows "\<exists>fx. is_admin ev u = (fx, Inr False) \<and> moderation_actions fx = []"
  using assms
  by (cases u)
     (auto simp add: is_admin_def io_defs moderation_actions_def split: sum.splits)

subsection \<open>The moderation handlers\<close>

lemma unauthorized_handlers:
  "is_admin ev u = (fx, Inr False) \<Longrightarrow> kick_user ev u = (fx, Inr ())"
  "is_admin ev u = (fx, Inr False) \<Longrightarrow> ban_user ev u = (fx, Inr ())"
  "is_admin ev u = (fx, Inr False) \<Longrightarrow> mute_user ev u = (fx, Inr ())"
  by (simp_all add: kick_user_def ban_user_def mute_user_def io_defs)

text \<open>
  An authorized sender, a new message, and a transport that accepts the replies. Without
  a reply target the handler sends the usage hint. With one, \<^verbatim>\<open>/ban\<close> and \<^verbatim>\<open>/mute\<close> invoke
  their platform call and reply with the success or the failure text; \<^verbatim>\<open>/kick\<close> invokes
  nothing and replies with the failure text.
\<close>

lemma authorized_without_target:
  assumes "is_admin ev (Message m) = ([], Inr True)" and "reply_to_message m = None"
  shows "kick_user ev (Message m) = io_send ev (ReplyText kick_usage None)"
    and "ban_user ev (Message m) = io_send ev (ReplyText ban_usage None)"
    and "mute_user ev (Message m) = io_send ev (ReplyText mute_usage None)"
  using assms by (simp_all add: kick_user_def ban_user_def mute_user_def io_defs)

lemma authorized_kick_with_target:
  assumes "is_admin ev (Message m) = ([], Inr True)" and "reply_to_message m = Some t"
  shows "kick_user ev (Message m) = io_send ev (ReplyText kick_failure None)"
  using assms by (simp add: kick_user_def io_defs bot_defs split: sum.split)

lemma authorized_with_target:
  assumes "is_admin ev (Message m) = ([], Inr True)" and "reply_to_message m = Some t"
    and "\<And>f. transport ev f = Inr ()"
  shows "ban_user ev (Message m) =
           ([BanChatMember (chat_id (msg_chat m)) (user_id t),
             ReplyText
               (case ban_chat_member ev (chat_id (msg_chat m)) (user_id t) of
                  Inr ok \<Rightarrow> ban_success t | Inl e \<Rightarrow> ban_failure) None], Inr ())"
    and "mute_user ev (Message m) =
           ([RestrictChatMember (chat_id (msg_chat m)) (user_id t) False,
             ReplyText
               (case restrict_chat_member ev (chat_id (msg_chat m)) (user_id t) False of
                  Inr ok \<Rightarrow> mute_success t | Inl e \<Rightarrow> mute_failure) None], Inr ())"
  using assms
  by (simp_all add: ban_user_def mute_user_def io_defs bot_defs split: sum.split)

text \<open>
  An authorized sender and an edited message: \<^verbatim>\<open>update.message\<close> is \<^verbatim>\<open>None\<close>, and reading
  \<^verbatim>\<open>update.message.reply_to_message\<close>, which is outside the \<^verbatim>\<open>try\<close>, raises.
\<close>

lemma authorized_edited_raises:
  assumes "is_admin ev (EditedMessage m) = ([], Inr True)"
  shows "kick_user ev (EditedMessage m) = ([], Inl AttributeError)"
    and "ban_user ev (EditedMessage m) = ([], Inl AttributeError)"
    and "mute_user ev (EditedMessage m) = ([], Inl AttributeError)"
  using assms by (simp_all add: kick_user_def ban_user_def mute_user_def io_defs)

lemma success_texts_name:
  "\<exists>pre post. kick_success t = pre @ first_name t @ post"
  "\<exists>pre post. ban_success t = pre @ first_name t @ post"
  "\<exists>pre post. mute_success t = pre @ first_name t @ post"
  unfolding kick_success_def ban_success_def mute_success_def
  by (intro exI, rule refl)+

subsection \<open>Routing\<close>

lemma route_command:
  "commanded ''kick'' u \<Longrightarrow>
   route ev s u =
     (case kick_user ev u of
        (fx, Inr r) \<Rightarrow> \<lparr> new_session = s, effects = fx, surfaced = None \<rparr>
      | (fx, Inl e) \<Rightarrow> \<lparr> new_session = s, effects = fx, surfaced = Some e \<rparr>)"
  "commanded ''ban'' u \<Longrightarrow>
   route ev s u =
     (case ban_user ev u of
        (fx, Inr r) \<Rightarrow> \<lparr> new_session = s, effects = fx, surfaced = None \<rparr>
      | (fx, Inl e) \<Rightarrow> \<lparr> new_session = s, effects = fx, surfaced = Some e \<rparr>)"
  "commanded ''mute'' u \<Longrightarrow>
   route ev s u =
     (case mute_user ev u of
        (fx, Inr r) \<Rightarrow> \<lparr> new_session = s, effects = fx, surfaced = None \<rparr>
      | (fx, Inl e) \<Rightarrow> \<lparr> new_session = s, effects = fx, surfaced = Some e \<rparr>)"
  by (cases s; cases u; simp add: route_def registration_defs)+

lemma route_unauthorized:
  assumes "commanded ''kick'' u \<or> commanded ''ban'' u \<or> commanded ''mute'' u"
    and "is_admin ev u = (fx, Inr False)"
  shows "route ev s u = \<lparr> new_session = s, effects = fx, surfaced = None \<rparr>"
  using assms by (auto simp add: route_command unauthorized_handlers)

text \<open>
  While no conversation state is held, \<^verbatim>\<open>/start\<close> reaches \<^verbatim>\<open>start\<close>. Sent as a new message,
  and the transport accepting the reply, it yields one reply, the welcome text with the
  main keyboard of three buttons, and the session stays \<open>IDLE\<close>. Sent as an edited message
  it yields no reply: \<^verbatim>\<open>update.message\<close> is \<^verbatim>\<open>None\<close> and the reply raises.
\<close>

lemma route_idle_start_message:
  "msg_command m = Some ''start'' \<Longrightarrow>
   transport ev (ReplyText (start_welcome_message (from_user m)) (Some main_keyboard)) = Inr () \<Longrightarrow>
   route ev IDLE (Message m) =
     \<lparr> new_session = IDLE,
       effects = [ReplyText (start_welcome_message (from_user m)) (Some main_keyboard)],
       surfaced = None \<rparr>"
  by (simp add: route_def registration_defs start_def io_defs)

lemma route_idle_start_edited:
  "msg_command m = Some ''start'' \<Longrightarrow>
   route ev IDLE (EditedMessage m) =
     \<lparr> new_session = IDLE, effects = [], surfaced = Some AttributeError \<rparr>"
  by (simp add: route_def registration_defs start_def io_defs)

lemma main_keyboard_tags:
  "button_tags (Some main_keyboard) = [''chat_start'', ''manage_group'', ''help_menu'']"
  by (simp add: main_keyboard_def)

text \<open>
  A session that is \<open>IDLE\<close> stays \<open>IDLE\<close> whatever is routed: the only entry point is
  \<^verbatim>\<open>/start\<close>, whose callback returns \<^verbatim>\<open>END\<close>, and the button handlers are fallbacks, which
  are consulted only while a state is held. So no run of the bot reaches \<open>CHATTING\<close>.
\<close>

lemma start_returns_END: "snd (start ev u) = Inr r \<Longrightarrow> r = END"
  by (cases u) (auto simp add: start_def io_defs split: sum.splits)

lemma route_idle_stays: "new_session (route ev IDLE u) = IDLE"
proof (cases "commanded ''start'' u")
  case True
  obtain fx r where st: "start ev u = (fx, r)" by (cases "start ev u")
  show ?thesis
  proof (cases r)
    case (Inl e)
    with True st show ?thesis by (cases u) (simp_all add: route_def registration_defs)
  next
    case (Inr c)
    with st have "c = END" using start_returns_END [of ev u c] by simp
    with True st Inr show ?thesis by (cases u) (simp_all add: route_def registration_defs)
  qed
next
  case False
  then show ?thesis
    by (cases u) (auto simp add: route_def registration_defs split: prod.split sum.split)
qed

lemma run_stays_idle: "run ev us = IDLE"
  unfolding run_def by (induction us) (simp_all add: route_idle_stays)

lemma route_idle_callback:
  "route ev IDLE (CallbackQuery q) = \<lparr> new_session = IDLE, effects = [], surfaced = None \<rparr>"
  by (simp add: route_def registration_defs)

text \<open>
  A non-command text message in a \<open>CHATTING\<close> session reaches \<^verbatim>\<open>handle_chat\<close>. A new message,
  the transport accepting the replies: one reply, the generated text or the fixed apology.
  An edited message: reading \<^verbatim>\<open>update.message.text\<close> raises.
\<close>

lemma route_chatting_text_message:
  assumes "msg_text m = Some body" and "body \<noteq> []" and "msg_command m = None"
    and "\<And>f. transport ev f = Inr ()"
  shows "route ev CHATTING (Message m) =
           \<lparr> new_session = CHATTING,
             effects =
               (case send_message_async ev body of
                  Inr response \<Rightarrow> [ReplyText response None]
                | Inl e \<Rightarrow>
                    [LoggerError ''Gemini API error: '' e, ReplyText chat_fallback_message None]),
             surfaced = None \<rparr>"
  using assms
  by (simp add: route_def registration_defs handle_chat_def io_defs split: sum.split)

lemma route_chatting_text_edited:
  "TEXT_and_not_COMMAND (EditedMessage m) \<Longrightarrow>
   route ev CHATTING (EditedMessage m) =
     \<lparr> new_session = CHATTING, effects = [], surfaced = Some AttributeError \<rparr>"
  by (simp add: route_def registration_defs handle_chat_def io_defs)

lemma route_unrecognized_press:
  "data q \<notin> {''chat_start'', ''manage_group'', ''help_menu'', ''main_menu''} \<Longrightarrow>
   route ev s (CallbackQuery q) = \<lparr> new_session = s, effects = [], surfaced = None \<rparr>"
  by (cases s) (simp_all add: route_def registration_defs)

section \<open>The claims\<close>

subsection \<open>C1: \<^verbatim>\<open>/start\<close> in every session\<close>

text \<open>
  C1 says that \<^verbatim>\<open>/start\<close> resets every session to \<open>IDLE\<close> and returns the three-button main
  menu. For \<^verbatim>\<open>/start\<close> sent as a new message that is \<open>route_idle_start_message\<close> with
  \<open>main_keyboard_tags\<close>. But the handler of \<^verbatim>\<open>/start\<close> is registered with the default
  filter, which accepts edited messages too, and \<^verbatim>\<open>start\<close> replies through
  \<^verbatim>\<open>update.message\<close>, which is \<^verbatim>\<open>None\<close> on an edited message. A user who sends \<^verbatim>\<open>/start\<close> and
  then edits that message (the session holds no state) gets no menu: the handler accepts
  the update, the reply raises \<^verbatim>\<open>AttributeError\<close>, and the exception reaches the application.
\<close>

theorem edited_start_raises:
  "commanded ''start'' (edited_command_message private_chat ''start'' None)
   \<and> route admin_env IDLE (edited_command_message private_chat ''start'' None) =
       \<lparr> new_session = IDLE, effects = [], surfaced = Some AttributeError \<rparr>"
  by (simp add: route_idle_start_edited commanded_def UpdateType_MESSAGES_def sample_defs)

subsection \<open>C2: when a session is \<open>CHATTING\<close>\<close>

text \<open>
  C2 says that the session is \<open>CHATTING\<close> after the begin-chat button press. The handler of
  that button, \<^verbatim>\<open>start_chat_mode\<close>, is registered among the fallbacks of the conversation,
  and the only entry point is \<^verbatim>\<open>/start\<close>, whose callback returns \<^verbatim>\<open>END\<close>. A user who sends
  \<^verbatim>\<open>/start\<close> and presses the button \<^verbatim>\<open>chat_start\<close> of the menu is in a session without state,
  where the fallbacks are not consulted: the press has no effect, the session stays
  \<open>IDLE\<close>, and the text message sent next gets no reply. The docstring of
  \<^verbatim>\<open>start_chat_mode\<close> (it starts the conversation and sets the chat state) and its comment
  on the returned state say the opposite.
\<close>

theorem begin_chat_press_ignored:
  "pressed ''chat_start'' (button_press private_chat ''chat_start'')
   \<and> route admin_env IDLE (button_press private_chat ''chat_start'') =
       \<lparr> new_session = IDLE, effects = [], surfaced = None \<rparr>
   \<and> run admin_env
         [command_message private_chat ''start'' None, button_press private_chat ''chat_start'']
       = IDLE
   \<and> route admin_env IDLE (text_message private_chat ''hello'') =
       \<lparr> new_session = IDLE, effects = [], surfaced = None \<rparr>"
  by (simp add: route_idle_callback run_stays_idle pressed_def sample_defs)
     (simp add: route_def registration_defs)

subsection \<open>C3: the moderation commands do not touch the session\<close>

text \<open>
  C3: for \<^verbatim>\<open>/kick\<close>, \<^verbatim>\<open>/ban\<close> and \<^verbatim>\<open>/mute\<close>, sent as a new or as an edited message, in every
  session state and whatever the services answer, the session after routing the command
  is the session before it.
\<close>

theorem moderation_commands_keep_session:
  "commanded ''kick'' u \<or> commanded ''ban'' u \<or> commanded ''mute'' u \<Longrightarrow>
   new_session (route ev s u) = s"
  by (auto simp add: route_command split: prod.split sum.split)

theorem moderation_commands_keep_session_witness:
  "new_session (route admin_env CHATTING (command_message group_chat ''ban'' (Some bob))) = CHATTING
   \<and> new_session (route member_env IDLE (command_message group_chat ''kick'' (Some bob))) = IDLE
   \<and> new_session (route admin_env CHATTING (edited_command_message private_chat ''mute'' None))
       = CHATTING"
  using moderation_commands_keep_session
          [of "command_message group_chat ''ban'' (Some bob)" admin_env CHATTING]
        moderation_commands_keep_session
          [of "command_message group_chat ''kick'' (Some bob)" member_env IDLE]
        moderation_commands_keep_session
          [of "edited_command_message private_chat ''mute'' None" admin_env CHATTING]
  by (simp add: commanded_def UpdateType_MESSAGES_def sample_defs)

subsection \<open>C4: moderation commands of unauthorized users\<close>

text \<open>
  C4 as stated promises a denial reply to every user of a non-group chat. In a private
  chat \<^verbatim>\<open>is_admin\<close> answers \<^verbatim>\<open>False\<close> without replying (its \<^verbatim>\<open>else\<close> branch, with the comment
  that the commands should not work in private chats) and the command handler returns at
  once: \<^verbatim>\<open>/kick\<close> there has no effect at all, so no denial reply either.
\<close>

theorem private_chat_no_denial_counterexample:
  "effects (route member_env IDLE (command_message private_chat ''kick'' (Some bob))) = []"
  by (simp add: route_command commanded_def UpdateType_MESSAGES_def sample_defs kick_user_def
        is_admin_outside_group private_chat_def io_defs)

text \<open>
  C4, amended. For \<^verbatim>\<open>/kick\<close>, \<^verbatim>\<open>/ban\<close> and \<^verbatim>\<open>/mute\<close>, in every session state:
  \<^item> in a non-group chat the command has no effect at all, neither a moderation call nor a
    reply;
  \<^item> in a group or supergroup, when the command is a new message of a user whom the
    membership lookup reports as neither creator nor administrator, and the transport
    accepts the denial, the denial is the only effect: exactly one reply and no
    moderation call;
  \<^item> whenever the sender is not reported as creator or administrator of a group or
    supergroup (a non-group chat, another membership status, or a failed lookup), no
    moderation call is invoked and no exception leaves the handler.
\<close>

theorem unauthorized_moderation_command:
  assumes "commanded ''kick'' u \<or> commanded ''ban'' u \<or> commanded ''mute'' u"
  shows "(chat_type (effective_chat u) \<notin> {''group'', ''supergroup''} \<longrightarrow>
            route ev s u = \<lparr> new_session = s, effects = [], surfaced = None \<rparr>)
       \<and> (chat_type (effective_chat u) \<in> {''group'', ''supergroup''} \<and>
          get_chat_member ev (chat_id (effective_chat u)) (user_id (effective_user u)) = Inr st \<and>
          st \<notin> {''creator'', ''administrator''} \<and>
          update_message u \<noteq> None \<and>
          transport ev (ReplyText admin_command_denial None) = Inr () \<longrightarrow>
            route ev s u =
              \<lparr> new_session = s, effects = [ReplyText admin_command_denial None],
                surfaced = None \<rparr>
            \<and> moderation_actions (effects (route ev s u)) = []
            \<and> replies (effects (route ev s u)) = [ReplyText admin_command_denial None])
       \<and> ((chat_type (effective_chat u) \<in> {''group'', ''supergroup''} \<longrightarrow>
           get_chat_member ev (chat_id (effective_chat u)) (user_id (effective_user u))
             \<notin> {Inr ''creator'', Inr ''administrator''}) \<longrightarrow>
            moderation_actions (effects (route ev s u)) = []
            \<and> surfaced (route ev s u) = None)"
proof (intro conjI impI)
  assume "chat_type (effective_chat u) \<notin> {''group'', ''supergroup''}"
  then have "is_admin ev u = ([], Inr False)" by (rule is_admin_outside_group)
  with assms show "route ev s u = \<lparr> new_session = s, effects = [], surfaced = None \<rparr>"
    by (rule route_unauthorized)
next
  assume h: "chat_type (effective_chat u) \<in> {''group'', ''supergroup''} \<and>
    get_chat_member ev (chat_id (effective_chat u)) (user_id (effective_user u)) = Inr st \<and>
    st \<notin> {''creator'', ''administrator''} \<and>
    update_message u \<noteq> None \<and>
    transport ev (ReplyText admin_command_denial None) = Inr ()"
  then obtain m where u: "u = Message m" by (cases u) simp_all
  from h have "is_admin ev u = ([ReplyText admin_command_denial None], Inr False)"
    unfolding u using is_admin_member_message [of m ev st] by simp
  with assms have r: "route ev s u =
      \<lparr> new_session = s, effects = [ReplyText admin_command_denial None], surfaced = None \<rparr>"
    by (rule route_unauthorized)
  show "route ev s u =
      \<lparr> new_session = s, effects = [ReplyText admin_command_denial None], surfaced = None \<rparr>"
    by (rule r)
  show "moderation_actions (effects (route ev s u)) = []"
    by (simp add: r moderation_actions_def)
  show "replies (effects (route ev s u)) = [ReplyText admin_command_denial None]"
    by (simp add: r replies_def)
next
  assume h: "chat_type (effective_chat u) \<in> {''group'', ''supergroup''} \<longrightarrow>
    get_chat_member ev (chat_id (effective_chat u)) (user_id (effective_user u))
      \<notin> {Inr ''creator'', Inr ''administrator''}"
  then obtain fx where adm: "is_admin ev u = (fx, Inr False)" and fx: "moderation_actions fx = []"
    using is_admin_unprivileged by blast
  from assms adm have r: "route ev s u = \<lparr> new_session = s, effects = fx, surfaced = None \<rparr>"
    by (rule route_unauthorized)
  show "moderation_actions (effects (route ev s u)) = []" by (simp add: r fx)
  show "surfaced (route ev s u) = None" by (simp add: r)
qed

theorem unauthorized_moderation_command_witness:
  "route member_env CHATTING (command_message private_chat ''ban'' (Some bob)) =
     \<lparr> new_session = CHATTING, effects = [], surfaced = None \<rparr>
   \<and> route member_env IDLE (command_message group_chat ''mute'' (Some bob)) =
     \<lparr> new_session = IDLE, effects = [ReplyText admin_command_denial None], surfaced = None \<rparr>
   \<and> moderation_actions
       (effects (route member_env IDLE (edited_command_message group_chat ''kick'' (Some bob))))
       = []
   \<and> surfaced (route member_env IDLE (edited_command_message group_chat ''kick'' (Some bob)))
       = None"
  using unauthorized_moderation_command
          [of "command_message private_chat ''ban'' (Some bob)" member_env CHATTING "''member''"]
        unauthorized_moderation_command
          [of "command_message group_chat ''mute'' (Some bob)" member_env IDLE "''member''"]
        unauthorized_moderation_command
          [of "edited_command_message group_chat ''kick'' (Some bob)" member_env IDLE "''member''"]
  by (simp add: commanded_def UpdateType_MESSAGES_def sample_defs private_chat_def
        group_chat_def member_env_def moderation_actions_def replies_def)

subsection \<open>C5: a text message in chat mode\<close>


subsection \<open>C6: the Unmute button\<close>

text \<open>
  C6 says that the Unmute button of the management menu is handled by a restriction call
  that restores the right to send messages. The management keyboard does carry a button
  with the callback data \<^verbatim>\<open>unmute_user\<close>, but no handler is registered for it (nor is there
  an unmute function): a press of it, by an administrator of a supergroup, in either
  session state, has no effect.
\<close>

theorem unmute_button_unhandled:
  "''unmute_user'' \<in> set (button_tags (Some manage_keyboard))
   \<and> route admin_env IDLE (button_press group_chat ''unmute_user'') =
       \<lparr> new_session = IDLE, effects = [], surfaced = None \<rparr>
   \<and> route admin_env CHATTING (button_press group_chat ''unmute_user'') =
       \<lparr> new_session = CHATTING, effects = [], surfaced = None \<rparr>"
  by (simp add: manage_keyboard_def back_button_def route_unrecognized_press button_press_def)

subsection \<open>C7: a moderation command without a reply target\<close>

text \<open>
  C7 says that an administrator's \<^verbatim>\<open>/kick\<close>, \<^verbatim>\<open>/ban\<close> or \<^verbatim>\<open>/mute\<close> that replies to no message
  produces the usage hint. For a new message and a transport that accepts the reply that
  is \<open>authorized_without_target\<close>. But the command handlers accept edited messages too:
  when an administrator of a supergroup edits a message into \<^verbatim>\<open>/ban\<close> (or edits a \<^verbatim>\<open>/ban\<close>
  already sent), \<^verbatim>\<open>is_admin\<close> answers \<^verbatim>\<open>True\<close>, and \<^verbatim>\<open>ban_user\<close> then reads
  \<^verbatim>\<open>update.message.reply_to_message\<close> outside any \<^verbatim>\<open>try\<close>. \<^verbatim>\<open>update.message\<close> is \<^verbatim>\<open>None\<close>, so
  this raises \<^verbatim>\<open>AttributeError\<close>: no usage hint is sent and the exception reaches the
  application. The same holds for \<^verbatim>\<open>/kick\<close> and \<^verbatim>\<open>/mute\<close>.
\<close>

theorem edited_command_without_target_raises:
  "commanded ''ban'' (edited_command_message group_chat ''ban'' None)
   \<and> route admin_env IDLE (edited_command_message group_chat ''ban'' None) =
       \<lparr> new_session = IDLE, effects = [], surfaced = Some AttributeError \<rparr>
   \<and> route admin_env IDLE (edited_command_message group_chat ''kick'' None) =
       \<lparr> new_session = IDLE, effects = [], surfaced = Some AttributeError \<rparr>
   \<and> route admin_env IDLE (edited_command_message group_chat ''mute'' None) =
       \<lparr> new_session = IDLE, effects = [], surfaced = Some AttributeError \<rparr>"
  by (simp add: route_def registration_defs sample_defs kick_user_def ban_user_def
        mute_user_def is_admin_def io_defs group_chat_def admin_env_def)

subsection \<open>C8: a moderation command with a reply target\<close>

text \<open>
  C8 says that an administrator's \<^verbatim>\<open>/kick\<close>, \<^verbatim>\<open>/ban\<close> or \<^verbatim>\<open>/mute\<close> sent as a reply to a user's
  message invokes exactly one platform moderation action and produces exactly one reply,
  the success reply naming the target, with no exception surfacing. For a new \<^verbatim>\<open>/ban\<close> or
  \<^verbatim>\<open>/mute\<close> and a transport that accepts the reply that is \<open>authorized_with_target\<close> with
  \<open>success_texts_name\<close>. It fails in two ways.
  \<^item> \<^verbatim>\<open>/kick\<close>: \<^verbatim>\<open>kick_user\<close> calls \<^verbatim>\<open>context.bot.kick_chat_member\<close>, a method the \<^verbatim>\<open>Bot\<close> class
    of the library versions that \<^verbatim>\<open>main.py\<close> imports from does not have. The attribute
    lookup raises inside the \<^verbatim>\<open>try\<close>; no platform action is invoked, the target is not
    removed, and the one reply is the failure text.
  \<^item> An edited command: when an administrator edits a reply into \<^verbatim>\<open>/ban\<close>, \<^verbatim>\<open>ban_user\<close> reads
    \<^verbatim>\<open>update.message.reply_to_message\<close> outside the \<^verbatim>\<open>try\<close> with \<^verbatim>\<open>update.message\<close> being
    \<^verbatim>\<open>None\<close>: no platform action, no reply, and \<^verbatim>\<open>AttributeError\<close> reaches the application.
\<close>

theorem kick_invokes_no_platform_action:
  "route admin_env IDLE (command_message group_chat ''kick'' (Some bob)) =
     \<lparr> new_session = IDLE, effects = [ReplyText kick_failure None], surfaced = None \<rparr>
   \<and> moderation_actions
       (effects (route admin_env IDLE (command_message group_chat ''kick'' (Some bob)))) = []
   \<and> route admin_env IDLE (edited_command_message group_chat ''ban'' (Some bob)) =
       \<lparr> new_session = IDLE, effects = [], surfaced = Some AttributeError \<rparr>"
  by (simp add: route_def registration_defs sample_defs kick_user_def ban_user_def
        is_admin_def io_defs bot_defs group_chat_def admin_env_def moderation_actions_def)

subsection \<open>C9: unrecognized callback tags\<close>

text \<open>
  C9: a button press whose callback data is none of \<^verbatim>\<open>chat_start\<close>, \<^verbatim>\<open>manage_group\<close>,
  \<^verbatim>\<open>help_menu\<close>, \<^verbatim>\<open>main_menu\<close> has no effect, so no reply, and the session is unchanged, in
  either session state.
\<close>

theorem unrecognized_callback_ignored:
  "data q \<notin> {''chat_start'', ''manage_group'', ''help_menu'', ''main_menu''} \<Longrightarrow>
   route ev s (CallbackQuery q) = \<lparr> new_session = s, effects = [], surfaced = None \<rparr>"
  by (cases s) (simp_all add: route_def registration_defs)

theorem unrecognized_callback_ignored_witness:
  "route member_env CHATTING (button_press group_chat ''kick_user'') =
     \<lparr> new_session = CHATTING, effects = [], surfaced = None \<rparr>"
  using unrecognized_callback_ignored
          [of "\<lparr> cq_from_user = alice, cq_chat = group_chat, data = ''kick_user'' \<rparr>"
              member_env CHATTING]
  by (simp add: button_press_def)

subsection \<open>C10: the authorization check on a button press\<close>

text \<open>
  C10: when the check runs on a button press of a user whom the lookup reports as neither
  creator nor administrator of a group or supergroup, \<^verbatim>\<open>update.message\<close> is \<^verbatim>\<open>None\<close>, so the
  denial reply inside the check raises; the surrounding handler logs the exception and the
  check returns \<^verbatim>\<open>False\<close> without having replied, whatever the transport does.
  \<^verbatim>\<open>show_manage_menu\<close> then is the only one to send a denial: when the transport accepts its
  acknowledgement of the press and its denial, the effects are the acknowledgement, the
  log line and that single reply, and it returns \<^verbatim>\<open>END\<close>; when the transport refuses the
  acknowledgement or the denial, the refused call raises out of \<^verbatim>\<open>show_manage_menu\<close> (not
  out of the check) and no reply is sent at all.
\<close>

theorem callback_admin_check_swallows:
  assumes "chat_type (cq_chat q) \<in> {''group'', ''supergroup''}"
    and "get_chat_member ev (chat_id (cq_chat q)) (user_id (cq_from_user q)) = Inr st"
    and "st \<notin> {''creator'', ''administrator''}"
  shows "is_admin ev (CallbackQuery q) =
           ([LoggerError ''Error checking admin status: '' AttributeError], Inr False)
       \<and> show_manage_menu ev (CallbackQuery q) =
           (case transport ev Answer of
              Inl e \<Rightarrow> ([], Inl e)
            | Inr ok \<Rightarrow>
                (case transport ev (ReplyText admin_menu_denial None) of
                   Inl e \<Rightarrow>
                     ([Answer, LoggerError ''Error checking admin status: '' AttributeError],
                      Inl e)
                 | Inr ok' \<Rightarrow>
                     ([Answer, LoggerError ''Error checking admin status: '' AttributeError,
                       ReplyText admin_menu_denial None], Inr END)))
       \<and> (transport ev Answer = Inr () \<and>
          transport ev (ReplyText admin_menu_denial None) = Inr () \<longrightarrow>
            show_manage_menu ev (CallbackQuery q) =
              ([Answer, LoggerError ''Error checking admin status: '' AttributeError,
                ReplyText admin_menu_denial None], Inr END)
            \<and> replies (fst (show_manage_menu ev (CallbackQuery q))) =
                [ReplyText admin_menu_denial None])
       \<and> (replies (fst (show_manage_menu ev (CallbackQuery q))) = [] \<or>
          replies (fst (show_manage_menu ev (CallbackQuery q))) =
            [ReplyText admin_menu_denial None])"
proof -
  have adm: "is_admin ev (CallbackQuery q) =
      ([LoggerError ''Error checking admin status: '' AttributeError], Inr False)"
    using assms is_admin_member_without_message [of "CallbackQuery q" ev st] by simp
  then have menu: "show_manage_menu ev (CallbackQuery q) =
      (case transport ev Answer of
         Inl e \<Rightarrow> ([], Inl e)
       | Inr ok \<Rightarrow>
           (case transport ev (ReplyText admin_menu_denial None) of
              Inl e \<Rightarrow>
                ([Answer, LoggerError ''Error checking admin status: '' AttributeError], Inl e)
            | Inr ok' \<Rightarrow>
                ([Answer, LoggerError ''Error checking admin status: '' AttributeError,
                  ReplyText admin_menu_denial None], Inr END)))"
    by (simp add: show_manage_menu_def io_defs split: sum.split)
  have both: "show_manage_menu ev (CallbackQuery q) =
      ([Answer, LoggerError ''Error checking admin status: '' AttributeError,
        ReplyText admin_menu_denial None], Inr END)"
    if "transport ev Answer = Inr ()" "transport ev (ReplyText admin_menu_denial None) = Inr ()"
    using that by (simp add: menu)
  have some: "replies (fst (show_manage_menu ev (CallbackQuery q))) = [] \<or>
      replies (fst (show_manage_menu ev (CallbackQuery q))) = [ReplyText admin_menu_denial None]"
    by (simp add: menu replies_def split: sum.split)
  from adm menu both some show ?thesis
    by (simp add: replies_def)
qed

theorem callback_admin_check_swallows_witness:
  "is_admin member_env (button_press group_chat ''manage_group'') =
     ([LoggerError ''Error checking admin status: '' AttributeError], Inr False)
   \<and> show_manage_menu member_env (button_press group_chat ''manage_group'') =
     ([Answer, LoggerError ''Error checking admin status: '' AttributeError,
       ReplyText admin_menu_denial None], Inr END)
   \<and> replies (fst (show_manage_menu member_env (button_press group_chat ''manage_group''))) =
     [ReplyText admin_menu_denial None]"
  using callback_admin_check_swallows
          [of "\<lparr> cq_from_user = alice, cq_chat = group_chat, data = ''manage_group'' \<rparr>"
              member_env "''member''"]
  by (simp add: button_press_def group_chat_def member_env_def replies_def)

end
